theory Spec2Isabelle
  imports Main
begin

section \<open>Data model\<close>

text \<open>
  The gateway is the Go package \<open>api\<close> (\<open>src/api/elasticsearch.go\<close>, which holds both the
  search-proxy router and the ingestion handlers, and \<open>src/api/middleware.go\<close>). A Go
  \<open>[]byte\<close> and a Go \<open>string\<close> are both byte sequences: \<open>string\<close> here.
\<close>

type_synonym bytes = string

text \<open>
  Modelled from the spec: the struct \<open>schema.MetricData\<close> is declared in the imported
  package \<open>gopkg.in/raintank/schema.v1\<close>, not in this repository. The record has the
  fields the gateway reads or writes, under the names the handlers use (\<open>m.Id\<close>,
  \<open>m.OrgId\<close>, \<open>m.Name\<close>, \<open>m.Metric\<close>, \<open>m.Mtype\<close>, \<open>m.Tags\<close>); a nil slice
  of tags is the empty list.
\<close>

record MetricData =
  Id :: string
  OrgId :: int
  Name :: string
  Metric :: string
  Mtype :: string
  Tags :: "string list"

text \<open>
  \<open>auth.User\<close> (package \<open>github.com/raintank/tsdb-gw/auth\<close>), the identity embedded in
  \<open>Context\<close>: the handlers read \<open>ctx.IsAdmin\<close> and \<open>ctx.OrgId\<close>. The organization field
  is \<open>User_OrgId\<close> here, since \<open>OrgId\<close> is the field of \<open>MetricData\<close>.
\<close>

record User =
  IsAdmin :: bool
  User_OrgId :: int

text \<open>
  What a handler sees of a request. \<open>Header\<close> maps a canonical header name to its first
  value; \<open>Body\<close> is \<open>None\<close> for a nil \<open>Request.Body\<close>, and otherwise the outcome of
  reading the body to its end with \<open>ioutil.ReadAll\<close>: the bytes read and the read error, if
  any. \<open>Params_star\<close> is \<open>c.Params("*")\<close>.
\<close>

record Context =
  Method :: string
  Header :: "string \<rightharpoonup> string"
  Body :: "(bytes \<times> string option) option"
  Params_star :: string
  User :: User

text \<open>
  The second argument of \<open>ctx.JSON(status, v)\<close>: a string, a Go \<open>error\<close> value passed as it
  is (\<open>ctx.JSON(500, err)\<close>), here by its message.
\<close>

datatype payload = Str string | ErrVal string

text \<open>
  A handler's observable behaviour is the sequence of its calls to its collaborators, in
  program order: the decoders, \<open>m.Validate()\<close>, the two counters, \<open>metric_publish.Publish\<close>,
  \<open>elasticsearch.Proxy\<close> (by the organization id it is given) and \<open>ctx.JSON\<close>. A run-time panic ends the sequence with \<open>Panic\<close>. Logging
  (\<open>glog\<close>) is left out.
\<close>

datatype event =
    Unmarshal_call bytes
  | InitFromMsg_call bytes
  | DecodeMetricData_call
  | Validate_call MetricData
  | metricsRejected_Add nat
  | metricsValid_Add nat
  | Publish_call "MetricData option list"
  | Proxy_call int
  | JSON int payload
  | Panic

text \<open>
  The collaborators of the ingestion handlers, none of them in this repository's sources,
  taken as parameters: \<open>m.Validate()\<close> (\<open>None\<close> is a nil error), the identity that
  \<open>m.SetId()\<close> stores, the flag \<open>*publicOrgId\<close>, \<open>json.Unmarshal\<close> into a
  \<open>[]*schema.MetricData\<close>, reading a snappy stream over the body to its end, the two
  steps that open a binary envelope (\<open>'e\<close> is the opened envelope), and
  \<open>metric_publish.Publish\<close>. A decoded batch is a slice of pointers; a decoder allocates
  one record per element and may leave an element nil (\<open>None\<close>).
\<close>

record 'e Deps =
  Validate :: "MetricData \<Rightarrow> string option"
  computeId :: "MetricData \<Rightarrow> string"
  publicOrgId :: int
  Unmarshal :: "bytes \<Rightarrow> string + MetricData option list"
  snappy_ReadAll :: "bytes \<times> string option \<Rightarrow> bytes \<times> string option"
  InitFromMsg :: "bytes \<Rightarrow> string + 'e"
  DecodeMetricData :: "'e \<Rightarrow> string + MetricData option list"
  Publish :: "MetricData option list \<Rightarrow> string option"

section \<open>Ingestion: \<open>Metrics\<close>, \<open>metricsJson\<close>, \<open>metricsBinary\<close>\<close>

definition Header_Get :: "Context \<Rightarrow> string \<Rightarrow> string" where
  "Header_Get ctx k = (case Header ctx k of None \<Rightarrow> [] | Some v \<Rightarrow> v)"

definition SetId :: "'e Deps \<Rightarrow> MetricData \<Rightarrow> MetricData" where
  "SetId D m = m\<lparr>Id := computeId D m\<rparr>"

text \<open>
  Lines 77--82 of \<open>metricsJson\<close> (the same statements stand at 104--109, 164--169 and
  191--196): \<open>m.Metric = m.Name\<close>, the default type, \<open>m.Tags = nil\<close>.
\<close>

definition defaults :: "MetricData \<Rightarrow> MetricData" where
  "defaults m =
     (let m1 = m\<lparr>Metric := Name m\<rparr>;
          m2 = (if Mtype m1 = [] then m1\<lparr>Mtype := ''gauge''\<rparr> else m1)
      in m2\<lparr>Tags := []\<rparr>)"

definition emit :: "event \<Rightarrow> event list \<times> 'a \<Rightarrow> event list \<times> 'a" where
  "emit e r = (e # fst r, snd r)"

text \<open>
  The admin loop, lines 76--100 (and 163--187, the same statements over
  \<open>metricData.Metrics\<close>). Go evaluates the operand of \<open>range\<close> once: the loop runs over
  the indices of the slice as it was when the loop began (\<open>k\<close> counts the iterations left,
  \<open>i\<close> is the index), while \<open>metrics = append(metrics, &public)\<close> grows the slice that
  \<open>len(metrics)\<close> and \<open>Publish\<close> see. \<open>m\<close> is a pointer, so an assignment to a field
  updates the record in the batch; \<open>public := *m\<close> copies the record. A nil element
  panics at \<open>m.Metric = m.Name\<close>. The result is the events and, if the loop ran to its
  end, the batch.
\<close>

fun adminRange ::
  "'e Deps \<Rightarrow> nat \<Rightarrow> nat \<Rightarrow> MetricData option list \<Rightarrow> event list \<times> MetricData option list option"
where
  "adminRange D 0 i metrics = ([], Some metrics)"
| "adminRange D (Suc k) i metrics =
     (case metrics ! i of
        None \<Rightarrow> ([Panic], None)
      | Some m0 \<Rightarrow>
          let m1 = defaults m0 in
          (case Validate D m1 of
             Some err \<Rightarrow>
               ([Validate_call m1, metricsRejected_Add (length metrics), JSON 400 (Str err)], None)
           | None \<Rightarrow>
               emit (Validate_call m1)
                 (let m2 = SetId D m1 in
                  if OrgId m2 = - 1 \<and> publicOrgId D \<noteq> - 1 then
                    let public = m2;
                        m3 = m2\<lparr>OrgId := publicOrgId D\<rparr>;
                        public = SetId D public
                    in adminRange D k (Suc i) (metrics[i := Some m3] @ [Some public])
                  else adminRange D k (Suc i) (metrics[i := Some m2]))))"

text \<open>
  The loop of every other caller, lines 102--116 (and 189--203): the organization is
  overwritten with \<open>ctx.OrgId\<close> first.
\<close>

fun userRange ::
  "'e Deps \<Rightarrow> int \<Rightarrow> nat \<Rightarrow> nat \<Rightarrow> MetricData option list \<Rightarrow> event list \<times> MetricData option list option"
where
  "userRange D org 0 i metrics = ([], Some metrics)"
| "userRange D org (Suc k) i metrics =
     (case metrics ! i of
        None \<Rightarrow> ([Panic], None)
      | Some m0 \<Rightarrow>
          let m1 = defaults (m0\<lparr>OrgId := org\<rparr>) in
          (case Validate D m1 of
             Some err \<Rightarrow>
               ([Validate_call m1, metricsRejected_Add (length metrics), JSON 400 (Str err)], None)
           | None \<Rightarrow>
               emit (Validate_call m1)
                 (userRange D org k (Suc i) (metrics[i := Some (SetId D m1)]))))"

text \<open>
  Lines 75--126 of \<open>metricsJson\<close>, which are lines 162--213 of \<open>metricsBinary\<close>: the two
  loops, then the valid counter, \<open>Publish\<close> and the response.
\<close>

definition processBatch :: "'e Deps \<Rightarrow> User \<Rightarrow> MetricData option list \<Rightarrow> event list" where
  "processBatch D u metrics =
     (let r = (if IsAdmin u then adminRange D (length metrics) 0 metrics
               else userRange D (User_OrgId u) (length metrics) 0 metrics)
      in case snd r of
           None \<Rightarrow> fst r
         | Some ms \<Rightarrow>
             fst r @ [metricsValid_Add (length ms), Publish_call ms] @
             (case Publish D ms of
                Some err \<Rightarrow> [JSON 500 (ErrVal err)]
              | None \<Rightarrow> [JSON 200 (Str ''ok'')]))"

text \<open>
  \<open>metricsJson\<close>. Its first statement is \<open>defer ctx.Req.Request.Body.Close()\<close>: a
  \<open>defer\<close> evaluates its function value when it is executed, and evaluating a method of a
  nil interface value panics, so with a nil body the handler panics at line 62 and the
  response of line 128 is never written. A read error is logged only (lines 65--67) and
  the bytes read so far go to \<open>json.Unmarshal\<close>.
\<close>

definition metricsJson :: "'e Deps \<Rightarrow> Context \<Rightarrow> event list" where
  "metricsJson D ctx =
     (case Body ctx of
        None \<Rightarrow> [Panic]
      | Some rd \<Rightarrow>
          let body = fst rd in
          Unmarshal_call body #
          (case Unmarshal D body of
             Inl err \<Rightarrow> [JSON 400 (Str (''unable to parse request body. '' @ err))]
           | Inr metrics \<Rightarrow> processBatch D (User ctx) metrics))"

text \<open>
  \<open>metricsBinary\<close>. Uncompressed, \<open>body\<close> is the request's body itself and
  \<open>defer body.Close()\<close> (line 138) panics on a nil body as above; compressed, \<open>body\<close> is
  the snappy reader, never nil, and a nil request body reaches line 215.
\<close>

definition metricsBinary :: "'e Deps \<Rightarrow> Context \<Rightarrow> bool \<Rightarrow> event list" where
  "metricsBinary D ctx compressed =
     (if \<not> compressed \<and> Body ctx = None then [Panic]
      else case Body ctx of
        None \<Rightarrow> [JSON 400 (Str ''no data included in request.'')]
      | Some raw \<Rightarrow>
          let rd = (if compressed then snappy_ReadAll D raw else raw) in
          (case snd rd of
             Some err \<Rightarrow> [JSON 500 (ErrVal err)]
           | None \<Rightarrow>
               InitFromMsg_call (fst rd) #
               (case InitFromMsg D (fst rd) of
                  Inl err \<Rightarrow> [JSON 500 (ErrVal err)]
                | Inr metricData \<Rightarrow>
                    DecodeMetricData_call #
                    (case DecodeMetricData D metricData of
                       Inl err \<Rightarrow> [JSON 500 (ErrVal err)]
                     | Inr metrics \<Rightarrow> processBatch D (User ctx) metrics))))"

definition Metrics :: "'e Deps \<Rightarrow> Context \<Rightarrow> event list" where
  "Metrics D ctx =
     (let contentType = Header_Get ctx ''Content-Type'' in
      if contentType = ''rt-metric-binary'' then metricsBinary D ctx False
      else if contentType = ''rt-metric-binary-snappy'' then metricsBinary D ctx True
      else if contentType = ''application/json'' then metricsJson D ctx
      else [JSON 400 (Str (''unknown content-type: '' @ contentType))])"

section \<open>Authentication: \<open>getApiKey\<close>, \<open>Auth\<close>\<close>

text \<open>
  \<open>strings.SplitN(s, sep, 2)\<close> for a separator of one byte, the only use the package makes
  of it: the text before the first separator and the text after it, or \<open>s\<close> alone when
  it holds no separator. The result is never empty.
\<close>

definition SplitN2 :: "string \<Rightarrow> char \<Rightarrow> string list" where
  "SplitN2 s sep =
     (if sep \<in> set s
      then [takeWhile (\<lambda>c. c \<noteq> sep) s, tl (dropWhile (\<lambda>c. c \<noteq> sep) s)]
      else [s])"

text \<open>
  \<open>strconv.ParseInt(s, 10, 64)\<close>: an optional sign, then one or more decimal digits, and
  a value in the range of \<open>int64\<close>; \<open>None\<close> is a non-nil error. On the 64-bit platforms
  the gateway is built for, \<open>int(orgId)\<close> is the same number.
\<close>

definition digit_val :: "char \<Rightarrow> int option" where
  "digit_val c = map_of (zip ''0123456789'' [0, 1, 2, 3, 4, 5, 6, 7, 8, 9]) c"

fun decimal :: "int \<Rightarrow> string \<Rightarrow> int option" where
  "decimal acc [] = Some acc"
| "decimal acc (c # cs) =
     (case digit_val c of None \<Rightarrow> None | Some d \<Rightarrow> decimal (10 * acc + d) cs)"

definition ParseInt :: "string \<Rightarrow> int option" where
  "ParseInt s =
     (let neg = (take 1 s = ''-'');
          ds = (if take 1 s = ''+'' \<or> take 1 s = ''-'' then drop 1 s else s)
      in if ds = [] then None
         else case decimal 0 ds of
                None \<Rightarrow> None
              | Some n \<Rightarrow>
                  if neg then (if n \<le> 2 ^ 63 then Some (- n) else None)
                  else (if n < 2 ^ 63 then Some n else None))"

text \<open>
  The errors of the authentication plugin (\<open>a.authPlugin.Auth\<close>, package
  \<open>github.com/raintank/tsdb-gw/auth\<close>): the two the handler compares with, and any other.
  The collaborators of \<open>Auth\<close>: \<open>base64.StdEncoding.DecodeString\<close> (\<open>Inl\<close> is its
  error), the plugin, and the text of an error (\<open>err.Error()\<close>).
\<close>

datatype auth_error = ErrInvalidKey | ErrInvalidOrgId | ErrOther string

record AuthDeps =
  DecodeString :: "string \<Rightarrow> string + string"
  authPlugin_Auth :: "string \<Rightarrow> auth_error + User"
  Error :: "auth_error \<Rightarrow> string"

text \<open>
  The value of a Go function that returns \<open>(string, error)\<close> or panics.
\<close>

datatype 'a result = Panicked | Failed string | Returned 'a

text \<open>
  \<open>getApiKey\<close>, lines 94--115. \<open>parts[0]\<close> and \<open>parts[1]\<close> are read under
  \<open>len(parts) == 2\<close>, and \<open>userAndPass[0]\<close> exists because \<open>SplitN\<close> returns at least
  one element; \<open>userAndPass[1]\<close> is read with no check of the length, and an index out of
  range is a run-time panic.
\<close>

definition getApiKey :: "(string \<Rightarrow> string + string) \<Rightarrow> Context \<Rightarrow> string result" where
  "getApiKey decode c =
     (let header = Header_Get c ''Authorization'';
          parts = SplitN2 header CHR '' ''
      in if length parts = 2 \<and> parts ! 0 = ''Bearer'' then Returned (parts ! 1)
         else if length parts = 2 \<and> parts ! 0 = ''Basic'' then
           (case decode (parts ! 1) of
              Inl err \<Rightarrow> Failed err
            | Inr decoded \<Rightarrow>
                let userAndPass = SplitN2 decoded CHR '':''
                in if userAndPass ! 0 = ''api_key''
                   then (if 1 < length userAndPass then Returned (userAndPass ! 1) else Panicked)
                   else Returned [])
         else Returned [])"

text \<open>
  The handler that \<open>Auth\<close> returns, lines 60--91: the events and the context it leaves
  (\<open>ctx.User = user\<close> on success).
\<close>

definition Auth :: "AuthDeps \<Rightarrow> Context \<Rightarrow> event list \<times> Context" where
  "Auth A ctx =
     (case getApiKey (DecodeString A) ctx of
        Panicked \<Rightarrow> ([Panic], ctx)
      | Failed err \<Rightarrow> ([JSON 401 (Str ''Invalid Authentication header.'')], ctx)
      | Returned key \<Rightarrow>
          if key = [] then ([JSON 401 (Str ''Unauthorized'')], ctx)
          else
            (case authPlugin_Auth A key of
               Inl err \<Rightarrow>
                 if err = ErrInvalidKey \<or> err = ErrInvalidOrgId
                 then ([JSON 401 (Str (Error A err))], ctx)
                 else ([JSON 500 (Str (Error A err))], ctx)
             | Inr user \<Rightarrow>
                 let user =
                   (if IsAdmin user then
                      (let header = Header_Get ctx ''X-Tsdb-Org''
                       in if header \<noteq> [] then
                            (case ParseInt header of
                               Some orgId \<Rightarrow>
                                 if orgId \<noteq> 0 then user\<lparr>User_OrgId := orgId\<rparr> else user
                             | None \<Rightarrow> user)
                          else user)
                    else user)
                 in ([], ctx\<lparr>User := user\<rparr>)))"

section \<open>Search proxy: \<open>ElasticsearchProxy\<close>\<close>

text \<open>
  \<open>time.Now()\<close> is an instant together with the process's local time zone: \<open>Unix\<close> is
  the number of seconds since 1970-01-01T00:00:00Z and \<open>offset\<close> the local zone's offset
  east of UTC at that instant, in seconds. \<open>t.Date()\<close> is the calendar date in the
  zone of \<open>t\<close>: the proleptic Gregorian date of the day that holds \<open>Unix + offset\<close>.
\<close>

record Time =
  Unix :: int
  offset :: int

definition civil :: "int \<Rightarrow> int \<times> int \<times> int" where
  "civil days =
     (let z = days + 719468;
          era = z div 146097;
          doe = z - era * 146097;
          yoe = (doe - doe div 1460 + doe div 36524 - doe div 146096) div 365;
          doy = doe - (365 * yoe + yoe div 4 - yoe div 100);
          mp = (5 * doy + 2) div 153;
          d = doy - (153 * mp + 2) div 5 + 1;
          m = (if mp < 10 then mp + 3 else mp - 9);
          y = yoe + era * 400 + (if m \<le> 2 then 1 else 0)
      in (y, m, d))"

definition Date :: "Time \<Rightarrow> int \<times> int \<times> int" where
  "Date t = civil ((Unix t + offset t) div 86400)"

text \<open>
  The verbs of \<open>fmt.Sprintf\<close> the proxy uses: \<open>%d\<close> on an integer and \<open>%02d\<close>, which
  pads with zeros to two characters (a \<open>time.Month\<close> under \<open>%02d\<close> prints as its number).
\<close>

fun digits :: "nat \<Rightarrow> string" where
  "digits n = (if n < 10 then [''0123456789'' ! n] else digits (n div 10) @ [''0123456789'' ! (n mod 10)])"

declare digits.simps [simp del]

definition fmt_d :: "int \<Rightarrow> string" where
  "fmt_d i = (if i < 0 then ''-'' @ digits (nat (- i)) else digits (nat i))"

definition fmt_02d :: "int \<Rightarrow> string" where
  "fmt_02d i =
     (if i < 0 then ''-'' @ digits (nat (- i))
      else if i < 10 then ''0'' @ digits (nat i)
      else digits (nat i))"

text \<open>
  \<open>ElasticsearchProxy\<close>, lines 10--23. \<open>IndexName\<close> is \<open>elasticsearch.IndexName\<close>, a
  variable of this repository's package \<open>elasticsearch\<close>, whose file is not among the
  sources: a parameter, as is the clock.
\<close>

definition ElasticsearchProxy :: "string \<Rightarrow> Time \<Rightarrow> Context \<Rightarrow> event list" where
  "ElasticsearchProxy IndexName now c =
     (let proxyPath = Params_star c;
          (y, m, d) = Date now;
          idxDate = IndexName @ ''-'' @ fmt_d y @ ''-'' @ fmt_02d m @ ''-'' @ fmt_02d d
      in if Method c = ''GET'' \<and> proxyPath = idxDate @ ''/_stats'' then [JSON 200 (Str ''ok'')]
         else if Method c = ''POST'' \<and> proxyPath = ''_msearch''
         then [Proxy_call (User_OrgId (User c))]
         else [JSON 404 (Str ''Not Found'')])"

section \<open>Instrumentation: \<open>pathSlug\<close>\<close>

text \<open>
  \<open>path.Clean\<close> of the Go library, by its documented rules: the path is read as elements
  separated by slashes; empty elements and \<open>.\<close> are dropped; \<open>..\<close> removes the element
  before it, unless that is itself \<open>..\<close> or there is none, in which case it is kept in
  a relative path and dropped in a rooted one; the result of an empty path, or of a
  relative path with no element left, is \<open>.\<close>. \<open>cleanElems\<close> keeps the elements in
  reverse.
\<close>

fun splitSlash :: "string \<Rightarrow> string list" where
  "splitSlash [] = [[]]"
| "splitSlash (c # cs) =
     (if c = CHR ''/'' then [] # splitSlash cs
      else (case splitSlash cs of [] \<Rightarrow> [[c]] | e # es \<Rightarrow> (c # e) # es))"

fun cleanElems :: "bool \<Rightarrow> string list \<Rightarrow> string list \<Rightarrow> string list" where
  "cleanElems rooted out [] = out"
| "cleanElems rooted out (e # es) =
     (if e = [] \<or> e = ''.'' then cleanElems rooted out es
      else if e = ''..'' then
        (case out of
           [] \<Rightarrow> cleanElems rooted (if rooted then [] else [''..'']) es
         | t # ts \<Rightarrow>
             if t = ''..'' then cleanElems rooted (''..'' # out) es
             else cleanElems rooted ts es)
      else cleanElems rooted (e # out) es)"

fun joinSlash :: "string list \<Rightarrow> string" where
  "joinSlash [] = []"
| "joinSlash [e] = e"
| "joinSlash (e # es) = e @ ''/'' @ joinSlash es"

definition Clean :: "string \<Rightarrow> string" where
  "Clean p =
     (if p = [] then ''.''
      else
        let rooted = (hd p = CHR ''/'');
            out = (if rooted then ''/'' else []) @
                  joinSlash (rev (cleanElems rooted [] (splitSlash p)))
        in if out = [] then ''.'' else out)"

definition TrimPrefix :: "string \<Rightarrow> string \<Rightarrow> string" where
  "TrimPrefix s pre = (if take (length pre) s = pre then drop (length pre) s else s)"

text \<open>
  \<open>strings.Replace(s, old, new, -1)\<close> for a pattern \<open>old\<close> of one byte, the only use
  \<open>pathSlug\<close> makes of it.
\<close>

fun Replace :: "string \<Rightarrow> char \<Rightarrow> string \<Rightarrow> string" where
  "Replace [] old new = []"
| "Replace (c # cs) old new = (if c = old then new @ Replace cs old new else c # Replace cs old new)"

definition pathSlug :: "string \<Rightarrow> string" where
  "pathSlug p =
     (let slug = TrimPrefix (Clean p) ''/'';
          slug = (if slug = [] then ''root'' else slug)
      in Replace (Replace slug CHR ''/'' ''_'') CHR ''.'' ''_'')"

section \<open>What the loops compute\<close>

text \<open>
  Closed forms of one iteration, for stating what the loops do to a whole batch. For a
  decoded record \<open>m0\<close> that passes validation in the admin loop: \<open>duplicated\<close> is the
  test of line 94 (\<open>m.SetId()\<close> and the defaults leave the organization as it was
  decoded), \<open>visited\<close> is the record the iteration leaves in its place in the batch, and
  \<open>appended\<close> is the copy it appends when the test holds. \<open>prepared\<close> is the record that
  \<open>m.Validate()\<close> is called on, for either kind of caller.
\<close>

definition duplicated :: "'e Deps \<Rightarrow> MetricData \<Rightarrow> bool" where
  "duplicated D m0 = (OrgId m0 = - 1 \<and> publicOrgId D \<noteq> - 1)"

definition visited :: "'e Deps \<Rightarrow> MetricData \<Rightarrow> MetricData" where
  "visited D m0 =
     (let m = SetId D (defaults m0)
      in if duplicated D m0 then m\<lparr>OrgId := publicOrgId D\<rparr> else m)"

definition appended :: "'e Deps \<Rightarrow> MetricData \<Rightarrow> MetricData" where
  "appended D m0 = SetId D (SetId D (defaults m0))"

definition prepared :: "User \<Rightarrow> MetricData \<Rightarrow> MetricData" where
  "prepared u m0 = (if IsAdmin u then defaults m0 else defaults (m0\<lparr>OrgId := User_OrgId u\<rparr>))"

section \<open>Instances for evaluation\<close>

text \<open>
  Concrete collaborators, so that the handlers can be run on concrete requests: a
  validation that rejects organization 0, an empty name or metric and an unknown type; an
  identity made of the organization and the metric's name and type; public organization
  5; a decoder that knows five bodies; a decompressor for streams that start with \<open>S\<close>;
  an envelope of nine bytes of header; a publisher that succeeds.
\<close>

definition example_Validate :: "MetricData \<Rightarrow> string option" where
  "example_Validate m =
     (if OrgId m = 0 then Some ''org_id cannot be 0''
      else if Name m = [] then Some ''name cannot be empty''
      else if Metric m = [] then Some ''metric cannot be empty''
      else if Mtype m \<notin> set [''gauge'', ''rate'', ''count'', ''counter'', ''timestamp'']
      then Some ''invalid mtype''
      else None)"

definition example_computeId :: "MetricData \<Rightarrow> string" where
  "example_computeId m = fmt_d (OrgId m) @ ''.'' @ Metric m @ '';'' @ Mtype m"

definition public_metric :: MetricData where
  "public_metric = \<lparr>Id = [], OrgId = - 1, Name = ''x'', Metric = [], Mtype = [], Tags = [''a:b'']\<rparr>"

definition unnamed_metric :: MetricData where
  "unnamed_metric = \<lparr>Id = [], OrgId = 3, Name = [], Metric = ''y'', Mtype = ''rate'', Tags = []\<rparr>"

definition example_Unmarshal :: "bytes \<Rightarrow> string + MetricData option list" where
  "example_Unmarshal b =
     (if b = [] then Inl ''unexpected end of JSON input''
      else if b = ''[]'' then Inr []
      else if b = ''[null]'' then Inr [None]
      else if b = ''[public]'' then Inr [Some public_metric]
      else if b = ''[public,unnamed]'' then Inr [Some public_metric, Some unnamed_metric]
      else Inl ''invalid character'')"

definition example_Deps :: "bytes Deps" where
  "example_Deps =
     \<lparr>Validate = example_Validate,
      computeId = example_computeId,
      publicOrgId = 5,
      Unmarshal = example_Unmarshal,
      snappy_ReadAll = (\<lambda>rd. case snd rd of
                           Some err \<Rightarrow> ([], Some err)
                         | None \<Rightarrow> if take 1 (fst rd) = ''S'' then (drop 1 (fst rd), None)
                                   else ([], Some ''snappy: corrupt input'')),
      InitFromMsg = (\<lambda>b. if length b < 9 then Inl ''msg too small'' else Inr (drop 9 b)),
      DecodeMetricData = example_Unmarshal,
      Publish = (\<lambda>ms. None)\<rparr>"

definition request :: "string \<Rightarrow> (bytes \<times> string option) option \<Rightarrow> User \<Rightarrow> Context" where
  "request contentType body u =
     \<lparr>Method = ''POST'', Header = [''Content-Type'' \<mapsto> contentType], Body = body,
      Params_star = [], User = u\<rparr>"

definition admin :: User where
  "admin = \<lparr>IsAdmin = True, User_OrgId = 1\<rparr>"

definition tenant :: User where
  "tenant = \<lparr>IsAdmin = False, User_OrgId = 7\<rparr>"

text \<open>
  A decoder for base64 in the standard alphabet with padding, which skips line breaks as
  \<open>base64.StdEncoding.DecodeString\<close> does: the instance of \<open>DecodeString\<close>.
\<close>

fun index_of :: "char \<Rightarrow> string \<Rightarrow> nat \<Rightarrow> nat option" where
  "index_of c [] i = None"
| "index_of c (x # xs) i = (if c = x then Some i else index_of c xs (i + 1))"

definition sextet :: "char \<Rightarrow> nat option" where
  "sextet c =
     index_of c ''ABCDEFGHIJKLMNOPQRSTUVWXYZabcdefghijklmnopqrstuvwxyz0123456789+/'' 0"

definition octets :: "nat \<Rightarrow> nat \<Rightarrow> string" where
  "octets n v =
     take n [char_of (v div 65536 mod 256), char_of (v div 256 mod 256), char_of (v mod 256)]"

definition quad :: "char \<Rightarrow> char \<Rightarrow> char \<Rightarrow> char \<Rightarrow> nat \<Rightarrow> string option" where
  "quad a b c d n =
     (case (sextet a, sextet b, sextet c, sextet d) of
        (Some va, Some vb, Some vc, Some vd) \<Rightarrow>
          Some (octets n (((va * 64 + vb) * 64 + vc) * 64 + vd))
      | _ \<Rightarrow> None)"

fun quads :: "string \<Rightarrow> string option" where
  "quads [] = Some []"
| "quads [a, b, c, d] =
     (if c = CHR ''='' \<and> d = CHR ''='' then quad a b CHR ''A'' CHR ''A'' 1
      else if d = CHR ''='' then quad a b c CHR ''A'' 2
      else quad a b c d 3)"
| "quads (a # b # c # d # rest) =
     (case (quad a b c d 3, quads rest) of
        (Some x, Some y) \<Rightarrow> Some (x @ y)
      | _ \<Rightarrow> None)"
| "quads _ = None"

definition base64_decode :: "string \<Rightarrow> string + string" where
  "base64_decode s =
     (case quads (filter (\<lambda>c. c \<noteq> CHR 0x0A \<and> c \<noteq> CHR 0x0D) s) of
        None \<Rightarrow> Inl ''illegal base64 data''
      | Some b \<Rightarrow> Inr b)"

text \<open>
  An authentication plugin that knows two keys, and requests for \<open>Auth\<close> and for the
  proxy.
\<close>

definition example_AuthDeps :: AuthDeps where
  "example_AuthDeps =
     \<lparr>DecodeString = base64_decode,
      authPlugin_Auth = (\<lambda>key. if key = ''adminkey'' then Inr admin
                               else if key = ''tenantkey'' then Inr tenant
                               else Inl ErrInvalidKey),
      Error = (\<lambda>e. case e of ErrInvalidKey \<Rightarrow> ''invalid key''
                             | ErrInvalidOrgId \<Rightarrow> ''invalid org id''
                             | ErrOther msg \<Rightarrow> msg)\<rparr>"

definition authRequest :: "string \<Rightarrow> string \<Rightarrow> Context" where
  "authRequest authorization org =
     \<lparr>Method = ''POST'',
      Header = [''Authorization'' \<mapsto> authorization, ''X-Tsdb-Org'' \<mapsto> org],
      Body = None, Params_star = [], User = \<lparr>IsAdmin = False, User_OrgId = 0\<rparr>\<rparr>"

definition proxyRequest :: "string \<Rightarrow> string \<Rightarrow> Context" where
  "proxyRequest method path =
     \<lparr>Method = method, Header = Map.empty, Body = None, Params_star = path, User = tenant\<rparr>"

section \<open>Properties of the ingestion handlers\<close>

text \<open>
  The defaults and \<open>SetId\<close> leave the organization alone, and \<open>emit\<close> puts an event
  in front.
\<close>

lemma OrgId_defaults [simp]: "OrgId (defaults m) = OrgId m"
  by (simp add: defaults_def Let_def)

lemma OrgId_SetId [simp]: "OrgId (SetId D m) = OrgId m"
  by (simp add: SetId_def)

lemma emit_pair [simp]: "emit e (es, r) = (e # es, r)"
  by (simp add: emit_def)

lemma fst_emit [simp]: "fst (emit e r) = e # fst r"
  by (simp add: emit_def)

lemma snd_emit [simp]: "snd (emit e r) = snd r"
  by (simp add: emit_def)

text \<open>
  One iteration of the admin loop at index \<open>length pre\<close>, on a record that passes
  validation and on one that does not.
\<close>

lemma adminRange_step:
  "Validate D (defaults r) = None \<Longrightarrow>
   adminRange D (Suc k) (length pre) (pre @ Some r # rest) =
     emit (Validate_call (defaults r))
       (adminRange D k (Suc (length pre))
          (pre @ Some (visited D r) # rest @
           (if duplicated D r then [Some (appended D r)] else [])))"
  by (simp add: Let_def duplicated_def visited_def appended_def)

lemma adminRange_reject:
  "Validate D (defaults r) = Some err \<Longrightarrow>
   adminRange D (Suc k) (length pre) (pre @ Some r # rest) =
     ([Validate_call (defaults r), metricsRejected_Add (Suc (length pre + length rest)),
       JSON 400 (Str err)], None)"
  by (simp add: Let_def)

text \<open>
  The admin loop over records that all pass validation, and over records that pass
  followed by one that does not. The batch is split into the part already visited
  (\<open>pre\<close>), the decoded records still to visit, and what lies behind them (the rest of the
  decoded batch and the copies appended so far).
\<close>

lemma adminRange_valid:
  "list_all (\<lambda>r. Validate D (defaults r) = None) rs \<Longrightarrow>
   adminRange D (length rs) (length pre) (pre @ map Some rs @ app) =
     (map (\<lambda>r. Validate_call (defaults r)) rs,
      Some (pre @ map (\<lambda>r. Some (visited D r)) rs @ app @
            map (\<lambda>r. Some (appended D r)) (filter (duplicated D) rs)))"
proof (induction rs arbitrary: pre app)
  case Nil
  then show ?case by simp
next
  case (Cons r rs)
  have v: "Validate D (defaults r) = None"
    and vs: "list_all (\<lambda>r. Validate D (defaults r) = None) rs"
    using Cons.prems by simp_all
  let ?app = "app @ (if duplicated D r then [Some (appended D r)] else [])"
  have "adminRange D (length (r # rs)) (length pre) (pre @ map Some (r # rs) @ app) =
        emit (Validate_call (defaults r))
          (adminRange D (length rs) (length (pre @ [Some (visited D r)]))
             ((pre @ [Some (visited D r)]) @ map Some rs @ ?app))"
    using adminRange_step [OF v, of "length rs" pre "map Some rs @ app"] by simp
  also have "\<dots> = emit (Validate_call (defaults r))
      (map (\<lambda>r. Validate_call (defaults r)) rs,
       Some ((pre @ [Some (visited D r)]) @ map (\<lambda>r. Some (visited D r)) rs @ ?app @
             map (\<lambda>r. Some (appended D r)) (filter (duplicated D) rs)))"
    by (simp only: Cons.IH [OF vs])
  also have "\<dots> = (map (\<lambda>r. Validate_call (defaults r)) (r # rs),
      Some (pre @ map (\<lambda>r. Some (visited D r)) (r # rs) @ app @
            map (\<lambda>r. Some (appended D r)) (filter (duplicated D) (r # rs))))"
    by simp
  finally show ?case .
qed

lemma adminRange_invalid:
  "list_all (\<lambda>r. Validate D (defaults r) = None) rs \<Longrightarrow>
   Validate D (defaults b) = Some err \<Longrightarrow>
   adminRange D (length rs + Suc k) (length pre) (pre @ map Some rs @ Some b # rest) =
     (map (\<lambda>r. Validate_call (defaults r)) rs @
      [Validate_call (defaults b),
       metricsRejected_Add (length pre + length rs + Suc (length rest) +
                            length (filter (duplicated D) rs)),
       JSON 400 (Str err)], None)"
proof (induction rs arbitrary: pre rest)
  case Nil
  then show ?case using adminRange_reject [of D b err k pre rest] by simp
next
  case (Cons r rs)
  have v: "Validate D (defaults r) = None"
    and vs: "list_all (\<lambda>r. Validate D (defaults r) = None) rs"
    using Cons.prems by simp_all
  let ?rest = "rest @ (if duplicated D r then [Some (appended D r)] else [])"
  have "adminRange D (length (r # rs) + Suc k) (length pre)
          (pre @ map Some (r # rs) @ Some b # rest) =
        emit (Validate_call (defaults r))
          (adminRange D (length rs + Suc k) (length (pre @ [Some (visited D r)]))
             ((pre @ [Some (visited D r)]) @ map Some rs @ Some b # ?rest))"
    using adminRange_step [OF v, of "length rs + Suc k" pre "map Some rs @ Some b # rest"]
    by simp
  also have "\<dots> = emit (Validate_call (defaults r))
      (map (\<lambda>r. Validate_call (defaults r)) rs @
       [Validate_call (defaults b),
        metricsRejected_Add (length (pre @ [Some (visited D r)]) + length rs +
                             Suc (length ?rest) + length (filter (duplicated D) rs)),
        JSON 400 (Str err)], None)"
    by (simp only: Cons.IH [OF vs Cons.prems(2)])
  also have "\<dots> = (map (\<lambda>r. Validate_call (defaults r)) (r # rs) @
      [Validate_call (defaults b),
       metricsRejected_Add (length pre + length (r # rs) + Suc (length rest) +
                            length (filter (duplicated D) (r # rs))),
       JSON 400 (Str err)], None)"
    by simp
  finally show ?case .
qed

text \<open>
  The same for the loop of the other callers.
\<close>

lemma userRange_step:
  "Validate D (defaults (r\<lparr>OrgId := org\<rparr>)) = None \<Longrightarrow>
   userRange D org (Suc k) (length pre) (pre @ Some r # rest) =
     emit (Validate_call (defaults (r\<lparr>OrgId := org\<rparr>)))
       (userRange D org k (Suc (length pre))
          (pre @ Some (SetId D (defaults (r\<lparr>OrgId := org\<rparr>))) # rest))"
  by (simp add: Let_def)

lemma userRange_reject:
  "Validate D (defaults (r\<lparr>OrgId := org\<rparr>)) = Some err \<Longrightarrow>
   userRange D org (Suc k) (length pre) (pre @ Some r # rest) =
     ([Validate_call (defaults (r\<lparr>OrgId := org\<rparr>)),
       metricsRejected_Add (Suc (length pre + length rest)), JSON 400 (Str err)], None)"
  by (simp add: Let_def)

lemma userRange_invalid:
  "list_all (\<lambda>r. Validate D (defaults (r\<lparr>OrgId := org\<rparr>)) = None) rs \<Longrightarrow>
   Validate D (defaults (b\<lparr>OrgId := org\<rparr>)) = Some err \<Longrightarrow>
   userRange D org (length rs + Suc k) (length pre) (pre @ map Some rs @ Some b # rest) =
     (map (\<lambda>r. Validate_call (defaults (r\<lparr>OrgId := org\<rparr>))) rs @
      [Validate_call (defaults (b\<lparr>OrgId := org\<rparr>)),
       metricsRejected_Add (length pre + length rs + Suc (length rest)),
       JSON 400 (Str err)], None)"
proof (induction rs arbitrary: pre)
  case Nil
  then show ?case using userRange_reject [where r = b and pre = pre and rest = rest and k = k] by simp
next
  case (Cons r rs)
  let ?r = "SetId D (defaults (r\<lparr>OrgId := org\<rparr>))"
  have v: "Validate D (defaults (r\<lparr>OrgId := org\<rparr>)) = None"
    and vs: "list_all (\<lambda>r. Validate D (defaults (r\<lparr>OrgId := org\<rparr>)) = None) rs"
    using Cons.prems by simp_all
  have "userRange D org (length (r # rs) + Suc k) (length pre)
          (pre @ map Some (r # rs) @ Some b # rest) =
        emit (Validate_call (defaults (r\<lparr>OrgId := org\<rparr>)))
          (userRange D org (length rs + Suc k) (length (pre @ [Some ?r]))
             ((pre @ [Some ?r]) @ map Some rs @ Some b # rest))"
    using userRange_step [OF v, of "length rs + Suc k" pre "map Some rs @ Some b # rest"]
    by simp
  also have "\<dots> = emit (Validate_call (defaults (r\<lparr>OrgId := org\<rparr>)))
      (map (\<lambda>r. Validate_call (defaults (r\<lparr>OrgId := org\<rparr>))) rs @
       [Validate_call (defaults (b\<lparr>OrgId := org\<rparr>)),
        metricsRejected_Add (length (pre @ [Some ?r]) + length rs + Suc (length rest)),
        JSON 400 (Str err)], None)"
    by (simp only: Cons.IH [OF vs Cons.prems(2)])
  also have "\<dots> = (map (\<lambda>r. Validate_call (defaults (r\<lparr>OrgId := org\<rparr>))) (r # rs) @
      [Validate_call (defaults (b\<lparr>OrgId := org\<rparr>)),
       metricsRejected_Add (length pre + length (r # rs) + Suc (length rest)),
       JSON 400 (Str err)], None)"
    by simp
  finally show ?case .
qed

text \<open>
  Neither loop calls \<open>Publish\<close>, so a published batch is the batch a loop ran to the end
  of, and a handler publishes only through \<open>processBatch\<close>.
\<close>

lemma userRange_no_publish: "Publish_call b \<notin> set (fst (userRange D org k i ms))"
  by (induction k arbitrary: i ms) (simp_all add: Let_def split: option.splits)

lemma adminRange_no_publish: "Publish_call b \<notin> set (fst (adminRange D k i ms))"
  by (induction k arbitrary: i ms) (simp_all add: Let_def split: option.splits)

lemma userRange_orgs:
  "snd (userRange D org (length rest) (length pre) (pre @ rest)) = Some ms \<Longrightarrow>
   \<exists>new. ms = pre @ new \<and> (\<forall>x\<in>set new. \<exists>m. x = Some m \<and> OrgId m = org)"
proof (induction rest arbitrary: pre)
  case Nil
  then show ?case by simp
next
  case (Cons x rest)
  show ?case
  proof (cases x)
    case None
    with Cons.prems show ?thesis by simp
  next
    case (Some r)
    let ?r = "SetId D (defaults (r\<lparr>OrgId := org\<rparr>))"
    show ?thesis
    proof (cases "Validate D (defaults (r\<lparr>OrgId := org\<rparr>))")
      case (Some err)
      with Cons.prems \<open>x = Some r\<close> show ?thesis by (simp add: Let_def)
    next
      case None
      have "snd (userRange D org (length rest) (length (pre @ [Some ?r]))
                  ((pre @ [Some ?r]) @ rest)) = Some ms"
        using Cons.prems \<open>x = Some r\<close> userRange_step [OF None, of "length rest" pre rest]
        by simp
      then obtain new where "ms = (pre @ [Some ?r]) @ new"
        and "\<forall>x\<in>set new. \<exists>m. x = Some m \<and> OrgId m = org"
        using Cons.IH by blast
      then have "ms = pre @ (Some ?r # new) \<and>
                 (\<forall>x\<in>set (Some ?r # new). \<exists>m. x = Some m \<and> OrgId m = org)"
        by simp
      then show ?thesis by blast
    qed
  qed
qed

lemma processBatch_published:
  "Publish_call b \<in> set (processBatch D u ms) \<Longrightarrow>
   snd (if IsAdmin u then adminRange D (length ms) 0 ms
        else userRange D (User_OrgId u) (length ms) 0 ms) = Some b"
  by (auto simp: processBatch_def Let_def userRange_no_publish adminRange_no_publish
           split: option.splits if_splits)

lemma Metrics_published:
  "Publish_call b \<in> set (Metrics D ctx) \<Longrightarrow>
   \<exists>ms. Publish_call b \<in> set (processBatch D (User ctx) ms)"
  by (auto simp: Metrics_def metricsJson_def metricsBinary_def Let_def
           split: option.splits sum.splits if_splits)

text \<open>
  Evaluation of the instances: \<open>digits\<close> by cases, and the definitions to unfold.
\<close>

lemma digits_lt10: "n < 10 \<Longrightarrow> digits n = [''0123456789'' ! n]"
  by (simp add: digits.simps [of n])

lemma digits_ge10: "10 \<le> n \<Longrightarrow> digits n = digits (n div 10) @ [''0123456789'' ! (n mod 10)]"
  by (simp add: digits.simps [of n])

lemmas example_simps =
  Metrics_def metricsJson_def metricsBinary_def processBatch_def Header_Get_def
  request_def example_Deps_def example_Unmarshal_def example_Validate_def example_computeId_def
  public_metric_def unnamed_metric_def admin_def tenant_def defaults_def SetId_def
  Let_def fmt_d_def fmt_02d_def digits_lt10 digits_ge10

text \<open>
  C1. For an admin caller, a record whose organization is the sentinel \<open>-1\<close> and a
  configured public organization, the handler is said to append a duplicate whose
  organization is the public id and whose identity is computed again, and to leave the
  organization of the original at the sentinel. The code assigns the other way round:
  \<open>m.OrgId = *publicOrgId\<close> (line 96) writes the public id into the record of the batch,
  whose identity \<open>m.SetId()\<close> has already computed for organization \<open>-1\<close>, and the copy
  \<open>public\<close>, which keeps organization \<open>-1\<close>, is the one whose identity is computed again
  and that is appended. On a JSON batch of one such record, with public organization 5:
  the published batch holds the decoded record with organization 5 and the identity of
  organization \<open>-1\<close>, then the copy with organization \<open>-1\<close>.
\<close>

theorem public_copy_keeps_sentinel_org:
  "Metrics example_Deps (request ''application/json'' (Some (''[public]'', None)) admin) =
     [Unmarshal_call ''[public]'',
      Validate_call
        \<lparr>Id = [], OrgId = - 1, Name = ''x'', Metric = ''x'', Mtype = ''gauge'', Tags = []\<rparr>,
      metricsValid_Add 2,
      Publish_call
        [Some \<lparr>Id = ''-1.x;gauge'', OrgId = 5, Name = ''x'', Metric = ''x'',
               Mtype = ''gauge'', Tags = []\<rparr>,
         Some \<lparr>Id = ''-1.x;gauge'', OrgId = - 1, Name = ''x'', Metric = ''x'',
               Mtype = ''gauge'', Tags = []\<rparr>],
      JSON 200 (Str ''ok'')]"
  by (simp add: example_simps)

text \<open>
  C2. For every caller that is not an admin and every batch that a handler hands to
  \<open>Publish\<close>, every record of the published batch has the caller's organization,
  whatever organization the body gave it (and no element of the batch is nil).
\<close>

theorem tenant_org_forced:
  assumes "\<not> IsAdmin (User ctx)" and "Publish_call b \<in> set (Metrics D ctx)"
  shows "\<forall>x\<in>set b. \<exists>m. x = Some m \<and> OrgId m = User_OrgId (User ctx)"
proof -
  obtain ms where "Publish_call b \<in> set (processBatch D (User ctx) ms)"
    using assms(2) Metrics_published by blast
  then have "snd (userRange D (User_OrgId (User ctx)) (length ms) (length ([] :: MetricData option list)) ([] @ ms)) = Some b"
    using processBatch_published [of b D "User ctx" ms] assms(1) by simp
  then obtain new where "b = [] @ new"
    and "\<forall>x\<in>set new. \<exists>m. x = Some m \<and> OrgId m = User_OrgId (User ctx)"
    using userRange_orgs by blast
  then show ?thesis by simp
qed

text \<open>
  C2 at a request: a tenant of organization 7 posts one record of organization \<open>-1\<close>;
  the published record has organization 7.
\<close>

theorem tenant_org_forced_witness:
  "\<not> IsAdmin (User (request ''application/json'' (Some (''[public]'', None)) tenant)) \<and>
   Publish_call
     [Some \<lparr>Id = ''7.x;gauge'', OrgId = 7, Name = ''x'', Metric = ''x'',
            Mtype = ''gauge'', Tags = []\<rparr>]
     \<in> set (Metrics example_Deps (request ''application/json'' (Some (''[public]'', None)) tenant)) \<and>
   OrgId public_metric = - 1 \<and>
   User_OrgId (User (request ''application/json'' (Some (''[public]'', None)) tenant)) = 7"
proof -
  let ?ctx = "request ''application/json'' (Some (''[public]'', None)) tenant"
  let ?b = "[Some \<lparr>Id = ''7.x;gauge'', OrgId = 7, Name = ''x'', Metric = ''x'',
                   Mtype = ''gauge'', Tags = []\<rparr>]"
  have n: "\<not> IsAdmin (User ?ctx)" by (simp add: request_def tenant_def)
  have p: "Publish_call ?b \<in> set (Metrics example_Deps ?ctx)" by (simp add: example_simps)
  have "\<forall>x\<in>set ?b. \<exists>m. x = Some m \<and> OrgId m = User_OrgId (User ?ctx)"
    by (rule tenant_org_forced [OF n p])
  then have "User_OrgId (User ?ctx) = 7" by simp
  with n p show ?thesis by (simp add: public_metric_def)
qed

text \<open>
  C3, as the code has it. The iteration of the admin loop visits the decoded records and
  nothing else: for an admin caller and a batch of records that all pass validation,
  \<open>Validate\<close> is called once on each decoded record, in order, and on no appended copy;
  each copy is appended behind the decoded records, with its identity computed once, when
  it is made (\<open>public.SetId()\<close>); the valid counter and \<open>Publish\<close> see the decoded
  records and the copies.
\<close>

theorem admin_loop_visits_decoded_records:
  assumes "IsAdmin u" and "list_all (\<lambda>r. Validate D (defaults r) = None) rs"
  shows "processBatch D u (map Some rs) =
     map (\<lambda>r. Validate_call (defaults r)) rs @
     [metricsValid_Add (length rs + length (filter (duplicated D) rs)),
      Publish_call (map (\<lambda>r. Some (visited D r)) rs @
                    map (\<lambda>r. Some (appended D r)) (filter (duplicated D) rs))] @
     (case Publish D (map (\<lambda>r. Some (visited D r)) rs @
                     map (\<lambda>r. Some (appended D r)) (filter (duplicated D) rs)) of
        Some err \<Rightarrow> [JSON 500 (ErrVal err)]
      | None \<Rightarrow> [JSON 200 (Str ''ok'')])"
  using adminRange_valid [OF assms(2), of "[]" "[]"] assms(1)
  by (simp add: processBatch_def)

text \<open>
  C3 at a batch: two records of organization \<open>-1\<close>, two validations, four records
  published.
\<close>

theorem admin_loop_visits_decoded_records_witness:
  "IsAdmin admin \<and>
   list_all (\<lambda>r. Validate example_Deps (defaults r) = None) [public_metric, public_metric] \<and>
   processBatch example_Deps admin [Some public_metric, Some public_metric] =
     [Validate_call (defaults public_metric), Validate_call (defaults public_metric),
      metricsValid_Add 4,
      Publish_call [Some (visited example_Deps public_metric),
                    Some (visited example_Deps public_metric),
                    Some (appended example_Deps public_metric),
                    Some (appended example_Deps public_metric)],
      JSON 200 (Str ''ok'')]"
proof -
  have a: "IsAdmin admin" by (simp add: admin_def)
  have v: "list_all (\<lambda>r. Validate example_Deps (defaults r) = None) [public_metric, public_metric]"
    by (simp add: example_simps)
  have d: "duplicated example_Deps public_metric"
    by (simp add: duplicated_def example_Deps_def public_metric_def)
  show ?thesis
    using admin_loop_visits_decoded_records [OF a v] a v d
    by (simp add: example_Deps_def)
qed

text \<open>
  C3 as claimed fails: the appended copy is said to be validated and to be subject to the
  duplication test in its turn. On a batch of one record of organization \<open>-1\<close> the only
  validation is that of the decoded record; the copy, which still has organization
  \<open>-1\<close>, is not validated and no copy of it is appended.
\<close>

theorem appended_copy_not_visited:
  "processBatch example_Deps admin [Some public_metric] =
     [Validate_call
        \<lparr>Id = [], OrgId = - 1, Name = ''x'', Metric = ''x'', Mtype = ''gauge'', Tags = []\<rparr>,
      metricsValid_Add 2,
      Publish_call [Some (visited example_Deps public_metric),
                    Some (appended example_Deps public_metric)],
      JSON 200 (Str ''ok'')] \<and>
   appended example_Deps public_metric =
     \<lparr>Id = ''-1.x;gauge'', OrgId = - 1, Name = ''x'', Metric = ''x'', Mtype = ''gauge'', Tags = []\<rparr> \<and>
   Validate_call (defaults (appended example_Deps public_metric))
     \<notin> set (processBatch example_Deps admin [Some public_metric])"
  by (simp add: example_simps visited_def appended_def duplicated_def)

text \<open>
  C4, as the code has it. When the records before the first invalid record are not nil
  and pass validation, processing stops at the invalid record: the rejected counter grows
  by \<open>len(metrics)\<close> at that moment, which is the number of decoded records plus, for an
  admin caller, the number of copies appended so far; the response is 400 with the
  validation error; the valid counter is not touched and \<open>Publish\<close> is not called.
\<close>

theorem first_invalid_record_aborts:
  assumes "list_all (\<lambda>r. Validate D (prepared u r) = None) rs"
    and "Validate D (prepared u b) = Some err"
  shows "processBatch D u (map Some rs @ Some b # rest) =
     map (\<lambda>r. Validate_call (prepared u r)) rs @
     [Validate_call (prepared u b),
      metricsRejected_Add (length (map Some rs @ Some b # rest) +
                           (if IsAdmin u then length (filter (duplicated D) rs) else 0)),
      JSON 400 (Str err)]"
proof (cases "IsAdmin u")
  case True
  then show ?thesis
    using assms adminRange_invalid [of D rs b err "length rest" "[]" rest]
    by (simp add: processBatch_def prepared_def)
next
  case False
  then show ?thesis
    using assms userRange_invalid [of D "User_OrgId u" rs b err "length rest" "[]" rest]
    by (simp add: processBatch_def prepared_def)
qed

text \<open>
  C4 at a batch: a tenant posts a valid record, a record with no name and a nil element;
  the rejected counter grows by 3.
\<close>

theorem first_invalid_record_aborts_witness:
  "list_all (\<lambda>r. Validate example_Deps (prepared tenant r) = None) [public_metric] \<and>
   Validate example_Deps (prepared tenant unnamed_metric) = Some ''name cannot be empty'' \<and>
   processBatch example_Deps tenant [Some public_metric, Some unnamed_metric, None] =
     [Validate_call (prepared tenant public_metric),
      Validate_call (prepared tenant unnamed_metric),
      metricsRejected_Add 3,
      JSON 400 (Str ''name cannot be empty'')]"
proof -
  have v: "list_all (\<lambda>r. Validate example_Deps (prepared tenant r) = None) [public_metric]"
    by (simp add: example_simps prepared_def)
  have b: "Validate example_Deps (prepared tenant unnamed_metric) = Some ''name cannot be empty''"
    by (simp add: example_simps prepared_def)
  have n: "\<not> IsAdmin tenant" by (simp add: tenant_def)
  show ?thesis
    using first_invalid_record_aborts [OF v b, of "[None]"] v b n by simp
qed

text \<open>
  C4 as claimed fails: the rejected counter is said to grow by the number of decoded
  records. An admin posts a record of organization \<open>-1\<close> and a record with no name: two
  records are decoded and the counter grows by 3, the copy of the first record included.
\<close>

theorem rejected_counts_appended_copies:
  "length [Some public_metric, Some unnamed_metric] = 2 \<and>
   processBatch example_Deps admin [Some public_metric, Some unnamed_metric] =
     [Validate_call
        \<lparr>Id = [], OrgId = - 1, Name = ''x'', Metric = ''x'', Mtype = ''gauge'', Tags = []\<rparr>,
      Validate_call
        \<lparr>Id = [], OrgId = 3, Name = [], Metric = [], Mtype = ''rate'', Tags = []\<rparr>,
      metricsRejected_Add 3,
      JSON 400 (Str ''name cannot be empty'')]"
  by (simp add: example_simps)

text \<open>
  C5, as the code has it. A JSON body that does not parse is answered with 400 and the
  parser's error; a binary body that cannot be read or decompressed, an envelope that
  cannot be opened and a batch that cannot be decoded are each answered with 500 and the
  error. In all four cases nothing is validated, counted or published.
\<close>

theorem decode_failures_publish_nothing:
  "(Body ctx = Some rd \<and> Unmarshal D (fst rd) = Inl err \<longrightarrow>
      metricsJson D ctx =
        [Unmarshal_call (fst rd), JSON 400 (Str (''unable to parse request body. '' @ err))]) \<and>
   (Body ctx = Some raw \<and>
    (if compressed then snappy_ReadAll D raw else raw) = (msg, Some err) \<longrightarrow>
      metricsBinary D ctx compressed = [JSON 500 (ErrVal err)]) \<and>
   (Body ctx = Some raw \<and>
    (if compressed then snappy_ReadAll D raw else raw) = (msg, None) \<and>
    InitFromMsg D msg = Inl err \<longrightarrow>
      metricsBinary D ctx compressed = [InitFromMsg_call msg, JSON 500 (ErrVal err)]) \<and>
   (Body ctx = Some raw \<and>
    (if compressed then snappy_ReadAll D raw else raw) = (msg, None) \<and>
    InitFromMsg D msg = Inr md \<and> DecodeMetricData D md = Inl err \<longrightarrow>
      metricsBinary D ctx compressed =
        [InitFromMsg_call msg, DecodeMetricData_call, JSON 500 (ErrVal err)])"
  by (simp add: metricsJson_def metricsBinary_def Let_def)

text \<open>
  C5 at requests: a JSON body that does not parse, a binary body whose read fails, a
  snappy body that is corrupt, an envelope that is too short, a batch that does not
  decode.
\<close>

theorem decode_failures_publish_nothing_witness:
  "metricsJson example_Deps (request ''application/json'' (Some (''{'', None)) tenant) =
     [Unmarshal_call ''{'', JSON 400 (Str ''unable to parse request body. invalid character'')] \<and>
   metricsBinary example_Deps (request ''rt-metric-binary'' (Some (''012'', Some ''EOF'')) tenant) False =
     [JSON 500 (ErrVal ''EOF'')] \<and>
   metricsBinary example_Deps (request ''rt-metric-binary-snappy'' (Some (''012'', None)) tenant) True =
     [JSON 500 (ErrVal ''snappy: corrupt input'')] \<and>
   metricsBinary example_Deps (request ''rt-metric-binary-snappy'' (Some (''Sshort'', None)) tenant) True =
     [InitFromMsg_call ''short'', JSON 500 (ErrVal ''msg too small'')] \<and>
   metricsBinary example_Deps (request ''rt-metric-binary'' (Some (''012345678{'', None)) tenant) False =
     [InitFromMsg_call ''012345678{'', DecodeMetricData_call, JSON 500 (ErrVal ''invalid character'')]"
proof -
  let ?D = "example_Deps"
  have b: "\<And>ct body. Body (request ct body tenant) = body"
    by (simp add: request_def)
  have u: "Unmarshal ?D (fst (''{'', None :: string option)) = Inl ''invalid character''"
    by (simp add: example_Deps_def example_Unmarshal_def)
  have s1: "snappy_ReadAll ?D (''012'', None) = ([], Some ''snappy: corrupt input'')"
    and s2: "snappy_ReadAll ?D (''Sshort'', None) = (''short'', None)"
    by (simp_all add: example_Deps_def)
  have i1: "InitFromMsg ?D ''short'' = Inl ''msg too small''"
    and i2: "InitFromMsg ?D ''012345678{'' = Inr ''{''"
    and i3: "DecodeMetricData ?D ''{'' = Inl ''invalid character''"
    by (simp_all add: example_Deps_def example_Unmarshal_def)
  have c1: "metricsJson ?D (request ''application/json'' (Some (''{'', None)) tenant) =
     [Unmarshal_call ''{'', JSON 400 (Str ''unable to parse request body. invalid character'')]"
    using decode_failures_publish_nothing
      [where ctx = "request ''application/json'' (Some (''{'', None)) tenant"
         and rd = "(''{'', None)" and D = ?D and err = "''invalid character''"] b u
    by simp
  have c2: "metricsBinary ?D (request ''rt-metric-binary'' (Some (''012'', Some ''EOF'')) tenant) False =
     [JSON 500 (ErrVal ''EOF'')]"
    using decode_failures_publish_nothing
      [where ctx = "request ''rt-metric-binary'' (Some (''012'', Some ''EOF'')) tenant"
         and raw = "(''012'', Some ''EOF'')" and D = ?D and err = "''EOF''"
         and compressed = False and msg = "''012''"] b
    by simp
  have c3: "metricsBinary ?D (request ''rt-metric-binary-snappy'' (Some (''012'', None)) tenant) True =
     [JSON 500 (ErrVal ''snappy: corrupt input'')]"
    using decode_failures_publish_nothing
      [where ctx = "request ''rt-metric-binary-snappy'' (Some (''012'', None)) tenant"
         and raw = "(''012'', None)" and D = ?D and err = "''snappy: corrupt input''"
         and compressed = True and msg = "[]"] b s1
    by simp
  have c4: "metricsBinary ?D (request ''rt-metric-binary-snappy'' (Some (''Sshort'', None)) tenant) True =
     [InitFromMsg_call ''short'', JSON 500 (ErrVal ''msg too small'')]"
    using decode_failures_publish_nothing
      [where ctx = "request ''rt-metric-binary-snappy'' (Some (''Sshort'', None)) tenant"
         and raw = "(''Sshort'', None)" and D = ?D and err = "''msg too small''"
         and compressed = True and msg = "''short''"] b s2 i1
    by simp
  have c5: "metricsBinary ?D (request ''rt-metric-binary'' (Some (''012345678{'', None)) tenant) False =
     [InitFromMsg_call ''012345678{'', DecodeMetricData_call, JSON 500 (ErrVal ''invalid character'')]"
    using decode_failures_publish_nothing
      [where ctx = "request ''rt-metric-binary'' (Some (''012345678{'', None)) tenant"
         and raw = "(''012345678{'', None)" and D = ?D and err = "''invalid character''"
         and compressed = False and msg = "''012345678{''" and md = "''{''"] b i2 i3
    by simp
  show ?thesis using c1 c2 c3 c4 c5 by simp
qed

text \<open>
  C5 as claimed fails: a malformed binary envelope, a failure of parsing, is said to be
  answered with 400. An envelope of five bytes is answered with 500.
\<close>

theorem malformed_envelope_answers_500:
  "Metrics example_Deps (request ''rt-metric-binary'' (Some (''short'', None)) tenant) =
     [InitFromMsg_call ''short'', JSON 500 (ErrVal ''msg too small'')]"
  by (simp add: example_simps)

text \<open>
  C6, as the code has it. The handlers test \<open>Request.Body != nil\<close>, not the length of
  the body. A compressed binary request with a nil body is answered with 400 and
  \<open>no data included in request.\<close>, and no decoder is called. A body that is present and
  has no bytes goes to the decoder: a JSON request calls \<open>json.Unmarshal\<close> on it and an
  uncompressed binary request, when the read succeeds, calls \<open>InitFromMsg\<close> on it.
\<close>

theorem nil_body_is_not_empty_body:
  "(Header_Get ctx ''Content-Type'' = ''rt-metric-binary-snappy'' \<and> Body ctx = None \<longrightarrow>
      Metrics D ctx = [JSON 400 (Str ''no data included in request.'')]) \<and>
   (Header_Get ctx ''Content-Type'' = ''application/json'' \<and> Body ctx = Some ([], e) \<longrightarrow>
      (\<exists>rest. Metrics D ctx = Unmarshal_call [] # rest)) \<and>
   (Header_Get ctx ''Content-Type'' = ''rt-metric-binary'' \<and> Body ctx = Some ([], None) \<longrightarrow>
      (\<exists>rest. Metrics D ctx = InitFromMsg_call [] # rest))"
  by (simp add: Metrics_def metricsJson_def metricsBinary_def Let_def)

text \<open>
  C6 at requests: a compressed binary request with a nil body, and a JSON and a binary
  request with a body of no bytes.
\<close>

theorem nil_body_is_not_empty_body_witness:
  "Metrics example_Deps (request ''rt-metric-binary-snappy'' None tenant) =
     [JSON 400 (Str ''no data included in request.'')] \<and>
   take 1 (Metrics example_Deps (request ''application/json'' (Some ([], None)) tenant)) =
     [Unmarshal_call []] \<and>
   take 1 (Metrics example_Deps (request ''rt-metric-binary'' (Some ([], None)) tenant)) =
     [InitFromMsg_call []]"
proof -
  have h: "\<And>ct body. Header_Get (request ct body tenant) ''Content-Type'' = ct"
    by (simp add: request_def Header_Get_def)
  have b: "\<And>ct body. Body (request ct body tenant) = body"
    by (simp add: request_def)
  have c1: "Metrics example_Deps (request ''rt-metric-binary-snappy'' None tenant) =
     [JSON 400 (Str ''no data included in request.'')]"
    using nil_body_is_not_empty_body
      [where ctx = "request ''rt-metric-binary-snappy'' None tenant" and D = example_Deps] h b
    by simp
  have c2: "take 1 (Metrics example_Deps (request ''application/json'' (Some ([], None)) tenant)) =
     [Unmarshal_call []]"
    using nil_body_is_not_empty_body
      [where ctx = "request ''application/json'' (Some ([], None)) tenant" and D = example_Deps
         and e = None] h b
    by auto
  have c3: "take 1 (Metrics example_Deps (request ''rt-metric-binary'' (Some ([], None)) tenant)) =
     [InitFromMsg_call []]"
    using nil_body_is_not_empty_body
      [where ctx = "request ''rt-metric-binary'' (Some ([], None)) tenant" and D = example_Deps] h b
    by auto
  show ?thesis using c1 c2 c3 by simp
qed

text \<open>
  C6 as claimed fails: an empty body is said to be answered without a call of the
  decoder. A JSON request whose body is present and has no bytes reaches
  \<open>json.Unmarshal\<close>, and the answer is the parser's error.
\<close>

theorem empty_body_reaches_decoder:
  "Metrics example_Deps (request ''application/json'' (Some ([], None)) tenant) =
     [Unmarshal_call [],
      JSON 400 (Str ''unable to parse request body. unexpected end of JSON input'')]"
  by (simp add: example_simps)

section \<open>Properties of authentication\<close>

lemma ParseInt_Nil [simp]: "ParseInt [] = None"
  by (simp add: ParseInt_def)

lemma SplitN2_Basic: "SplitN2 (''Basic '' @ b) CHR '' '' = [''Basic'', b]"
  by (simp add: SplitN2_def)

text \<open>
  C7. For a request that authenticates (a key is extracted, it is not empty, and the
  plugin resolves it to an identity \<open>u\<close>): if \<open>u\<close> is an admin and the header
  \<open>X-Tsdb-Org\<close> parses as an integer \<open>v\<close> other than 0, the identity the handler stores
  is \<open>u\<close> with organization \<open>v\<close>; if \<open>u\<close> is not an admin it is \<open>u\<close>, whatever the
  header; and if \<open>u\<close> is an admin and the header is absent, does not parse or is 0, it
  is \<open>u\<close>.
\<close>

theorem Auth_impersonation:
  assumes "getApiKey (DecodeString A) ctx = Returned key" and "key \<noteq> []"
    and "authPlugin_Auth A key = Inr u"
  shows "(IsAdmin u \<and> ParseInt (Header_Get ctx ''X-Tsdb-Org'') = Some v \<and> v \<noteq> 0 \<longrightarrow>
            Auth A ctx = ([], ctx\<lparr>User := u\<lparr>User_OrgId := v\<rparr>\<rparr>)) \<and>
         (\<not> IsAdmin u \<longrightarrow> Auth A ctx = ([], ctx\<lparr>User := u\<rparr>)) \<and>
         (IsAdmin u \<and> (Header_Get ctx ''X-Tsdb-Org'' = [] \<or>
                       ParseInt (Header_Get ctx ''X-Tsdb-Org'') = None \<or>
                       ParseInt (Header_Get ctx ''X-Tsdb-Org'') = Some 0) \<longrightarrow>
            Auth A ctx = ([], ctx\<lparr>User := u\<rparr>))"
  using assms by (auto simp: Auth_def Let_def)

lemma getApiKey_Bearer:
  "getApiKey f (authRequest (''Bearer '' @ key) org) = Returned key"
  by (simp add: getApiKey_def authRequest_def Header_Get_def SplitN2_def)

text \<open>
  C7 at requests: an admin with header 42, a tenant with header 42, and an admin with
  header 0, with a header that does not parse and with no header.
\<close>

theorem Auth_impersonation_witness:
  "Auth example_AuthDeps (authRequest ''Bearer adminkey'' ''42'') =
     ([], (authRequest ''Bearer adminkey'' ''42'')\<lparr>User := \<lparr>IsAdmin = True, User_OrgId = 42\<rparr>\<rparr>) \<and>
   Auth example_AuthDeps (authRequest ''Bearer tenantkey'' ''42'') =
     ([], (authRequest ''Bearer tenantkey'' ''42'')\<lparr>User := \<lparr>IsAdmin = False, User_OrgId = 7\<rparr>\<rparr>) \<and>
   Auth example_AuthDeps (authRequest ''Bearer adminkey'' ''0'') =
     ([], (authRequest ''Bearer adminkey'' ''0'')\<lparr>User := \<lparr>IsAdmin = True, User_OrgId = 1\<rparr>\<rparr>) \<and>
   Auth example_AuthDeps (authRequest ''Bearer adminkey'' ''4x'') =
     ([], (authRequest ''Bearer adminkey'' ''4x'')\<lparr>User := \<lparr>IsAdmin = True, User_OrgId = 1\<rparr>\<rparr>) \<and>
   Auth example_AuthDeps (authRequest ''Bearer adminkey'' []) =
     ([], (authRequest ''Bearer adminkey'' [])\<lparr>User := \<lparr>IsAdmin = True, User_OrgId = 1\<rparr>\<rparr>)"
proof -
  let ?A = example_AuthDeps
  have k: "\<And>org. getApiKey (DecodeString ?A) (authRequest ''Bearer adminkey'' org) = Returned ''adminkey''"
    "\<And>org. getApiKey (DecodeString ?A) (authRequest ''Bearer tenantkey'' org) = Returned ''tenantkey''"
    using getApiKey_Bearer [of _ "''adminkey''"] getApiKey_Bearer [of _ "''tenantkey''"] by simp_all
  have n: "''adminkey'' \<noteq> []" "''tenantkey'' \<noteq> []" by simp_all
  have a: "authPlugin_Auth ?A ''adminkey'' = Inr admin" "authPlugin_Auth ?A ''tenantkey'' = Inr tenant"
    by (simp_all add: example_AuthDeps_def)
  have p: "ParseInt ''42'' = Some 42" "ParseInt ''0'' = Some 0" "ParseInt ''4x'' = None"
    by (simp_all add: ParseInt_def digit_val_def)
  have g: "\<And>auth org. Header_Get (authRequest auth org) ''X-Tsdb-Org'' = org"
    by (simp add: authRequest_def Header_Get_def)
  show ?thesis
    using Auth_impersonation [OF k(1) n(1) a(1), of "''42''" 42]
          Auth_impersonation [OF k(2) n(2) a(2), of "''42''" 42]
          Auth_impersonation [OF k(1) n(1) a(1), of "''0''" 0]
          Auth_impersonation [OF k(1) n(1) a(1), of "''4x''" 0]
          Auth_impersonation [OF k(1) n(1) a(1), of "[]" 0]
          p g
    by (simp add: admin_def tenant_def)
qed

text \<open>
  C10. For an \<open>Authorization\<close> header \<open>Basic\<close>, a space and base64 text that decodes
  to exactly \<open>api_key\<close>, with no colon, \<open>getApiKey\<close> reads element 1 of a split result
  of one element: the index is out of range, and \<open>Auth\<close> ends in a panic, not in a 401
  response.
\<close>

theorem getApiKey_index_out_of_range:
  assumes "Header c ''Authorization'' = Some (''Basic '' @ b64)"
    and "DecodeString A b64 = Inr ''api_key''"
  shows "getApiKey (DecodeString A) c = Panicked \<and> Auth A c = ([Panic], c)"
proof -
  have "getApiKey (DecodeString A) c = Panicked"
    using assms by (simp add: getApiKey_def Header_Get_def SplitN2_Basic Let_def)
       (simp add: SplitN2_def)
  then show ?thesis by (simp add: Auth_def)
qed

lemma base64_api_key: "base64_decode ''YXBpX2tleQ=='' = Inr ''api_key''"
  by (simp add: base64_decode_def quad_def sextet_def octets_def char_of_def bit_Suc_0_iff)

text \<open>
  C10 at the header \<open>Basic YXBpX2tleQ==\<close>.
\<close>

theorem getApiKey_index_out_of_range_witness:
  "Header (authRequest ''Basic YXBpX2tleQ=='' []) ''Authorization'' = Some (''Basic '' @ ''YXBpX2tleQ=='') \<and>
   DecodeString example_AuthDeps ''YXBpX2tleQ=='' = Inr ''api_key'' \<and>
   getApiKey (DecodeString example_AuthDeps) (authRequest ''Basic YXBpX2tleQ=='' []) = Panicked \<and>
   Auth example_AuthDeps (authRequest ''Basic YXBpX2tleQ=='' []) =
     ([Panic], authRequest ''Basic YXBpX2tleQ=='' [])"
proof -
  have h: "Header (authRequest ''Basic YXBpX2tleQ=='' []) ''Authorization'' =
             Some (''Basic '' @ ''YXBpX2tleQ=='')"
    by (simp add: authRequest_def)
  have d: "DecodeString example_AuthDeps ''YXBpX2tleQ=='' = Inr ''api_key''"
    by (simp add: example_AuthDeps_def base64_api_key)
  show ?thesis
    using getApiKey_index_out_of_range [OF h d] h d by simp
qed

section \<open>Properties of the search proxy\<close>

text \<open>
  C8, as the code has it. With \<open>(y, m, d)\<close> the date of \<open>time.Now()\<close> in the
  process's local time zone: a GET whose path is the index name, \<open>-\<close>, the date printed
  as \<open>%d-%02d-%02d\<close>, and \<open>/_stats\<close> is answered with 200 \<open>ok\<close> and the proxy is not
  called; a POST to \<open>_msearch\<close> goes to the proxy with the caller's organization; every
  other request is answered with 404 \<open>Not Found\<close>.
\<close>

theorem proxy_routes:
  "(Date now = (y, m, d) \<and> Method c = ''GET'' \<and>
    Params_star c = IndexName @ ''-'' @ fmt_d y @ ''-'' @ fmt_02d m @ ''-'' @ fmt_02d d @ ''/_stats'' \<longrightarrow>
      ElasticsearchProxy IndexName now c = [JSON 200 (Str ''ok'')]) \<and>
   (Method c = ''POST'' \<and> Params_star c = ''_msearch'' \<longrightarrow>
      ElasticsearchProxy IndexName now c = [Proxy_call (User_OrgId (User c))]) \<and>
   (Date now = (y, m, d) \<and>
    \<not> (Method c = ''GET'' \<and>
       Params_star c = IndexName @ ''-'' @ fmt_d y @ ''-'' @ fmt_02d m @ ''-'' @ fmt_02d d @ ''/_stats'') \<and>
    \<not> (Method c = ''POST'' \<and> Params_star c = ''_msearch'') \<longrightarrow>
      ElasticsearchProxy IndexName now c = [JSON 404 (Str ''Not Found'')])"
  by (cases "Date now") (auto simp: ElasticsearchProxy_def Let_def)

lemma Date_examples:
  "Date \<lparr>Unix = 1704139200, offset = 0\<rparr> = (2024, 1, 1)"
  "Date \<lparr>Unix = 1704139200, offset = 36000\<rparr> = (2024, 1, 2)"
  by code_simp+

lemma fmt_examples: "fmt_d 2024 = ''2024''" "fmt_02d 1 = ''01''" "fmt_02d 2 = ''02''"
  by (simp_all add: fmt_d_def fmt_02d_def digits_lt10 digits_ge10)

text \<open>
  C8 at requests, at 2024-01-01T20:00:00Z in a zone ten hours east of UTC, where the
  local date is 2024-01-02.
\<close>

theorem proxy_routes_witness:
  "ElasticsearchProxy ''idx'' \<lparr>Unix = 1704139200, offset = 36000\<rparr>
     (proxyRequest ''GET'' ''idx-2024-01-02/_stats'') = [JSON 200 (Str ''ok'')] \<and>
   ElasticsearchProxy ''idx'' \<lparr>Unix = 1704139200, offset = 36000\<rparr>
     (proxyRequest ''POST'' ''_msearch'') = [Proxy_call 7] \<and>
   ElasticsearchProxy ''idx'' \<lparr>Unix = 1704139200, offset = 36000\<rparr>
     (proxyRequest ''GET'' ''_msearch'') = [JSON 404 (Str ''Not Found'')]"
proof -
  let ?now = "\<lparr>Unix = 1704139200, offset = 36000\<rparr>"
  have c1: "ElasticsearchProxy ''idx'' ?now (proxyRequest ''GET'' ''idx-2024-01-02/_stats'') =
            [JSON 200 (Str ''ok'')]"
    using proxy_routes [where now = ?now and y = 2024 and m = 1 and d = 2 and IndexName = "''idx''"
                          and c = "proxyRequest ''GET'' ''idx-2024-01-02/_stats''"]
    by (simp add: Date_examples fmt_examples proxyRequest_def)
  have c2: "ElasticsearchProxy ''idx'' ?now (proxyRequest ''POST'' ''_msearch'') = [Proxy_call 7]"
    using proxy_routes [where now = ?now and IndexName = "''idx''"
                          and c = "proxyRequest ''POST'' ''_msearch''"]
    by (simp add: proxyRequest_def tenant_def)
  have c3: "ElasticsearchProxy ''idx'' ?now (proxyRequest ''GET'' ''_msearch'') =
            [JSON 404 (Str ''Not Found'')]"
    using proxy_routes [where now = ?now and y = 2024 and m = 1 and d = 2 and IndexName = "''idx''"
                          and c = "proxyRequest ''GET'' ''_msearch''"]
    by (simp add: Date_examples fmt_examples proxyRequest_def)
  show ?thesis using c1 c2 c3 by simp
qed

text \<open>
  C8 as claimed fails: the date is said to be that of UTC. At the same instant and in
  the same zone, the UTC date is 2024-01-01 and a GET of \<open>idx-2024-01-01/_stats\<close> is
  answered with 404.
\<close>

theorem proxy_uses_local_date:
  "Date \<lparr>Unix = 1704139200, offset = 0\<rparr> = (2024, 1, 1) \<and>
   ElasticsearchProxy ''idx'' \<lparr>Unix = 1704139200, offset = 36000\<rparr>
     (proxyRequest ''GET'' ''idx-2024-01-01/_stats'') = [JSON 404 (Str ''Not Found'')]"
  by (simp add: ElasticsearchProxy_def Date_examples fmt_examples proxyRequest_def)

section \<open>Properties of \<open>pathSlug\<close>\<close>

text \<open>
  On a string with no slash and no dot that is not empty, \<open>path.Clean\<close> and the rest
  of \<open>pathSlug\<close> change nothing, and every result of \<open>pathSlug\<close> is such a string.
\<close>

lemma Replace_map: "Replace s old [n] = map (\<lambda>c. if c = old then n else c) s"
  by (induction s) simp_all

lemma splitSlash_plain: "CHR ''/'' \<notin> set s \<Longrightarrow> splitSlash s = [s]"
  by (induction s) auto

lemma Clean_plain:
  assumes "s \<noteq> []" and "CHR ''/'' \<notin> set s" and "CHR ''.'' \<notin> set s"
  shows "Clean s = s"
proof -
  have "hd s \<noteq> CHR ''/''" using assms(1,2) hd_in_set by metis
  moreover have "s \<noteq> ''.''" and "s \<noteq> ''..''" using assms(3) by auto
  ultimately show ?thesis
    using assms(1) by (simp add: Clean_def splitSlash_plain [OF assms(2)])
qed

lemma pathSlug_plain:
  assumes "s \<noteq> []" and "CHR ''/'' \<notin> set s" and "CHR ''.'' \<notin> set s"
  shows "pathSlug s = s"
proof -
  have "take (Suc 0) s \<noteq> ''/''"
    using assms(1,2) by (cases s) auto
  moreover have "map (\<lambda>c. if c = CHR ''.'' then CHR ''_'' else c)
                   (map (\<lambda>c. if c = CHR ''/'' then CHR ''_'' else c) s) = s"
    using assms(2,3) by (induction s) auto
  ultimately show ?thesis
    using assms(1) by (simp add: pathSlug_def Clean_plain [OF assms] TrimPrefix_def Replace_map)
qed

lemma pathSlug_shape:
  "pathSlug p \<noteq> [] \<and> CHR ''/'' \<notin> set (pathSlug p) \<and> CHR ''.'' \<notin> set (pathSlug p)"
  by (auto simp: pathSlug_def Let_def Replace_map)

text \<open>
  C9. \<open>pathSlug\<close> is idempotent: applied to one of its results it returns it
  unchanged. It maps \<open>/a/b.c\<close> to \<open>a_b_c\<close> and \<open>/\<close> to \<open>root\<close>.
\<close>

theorem pathSlug_idempotent:
  "pathSlug (pathSlug p) = pathSlug p \<and> pathSlug ''/a/b.c'' = ''a_b_c'' \<and>
   pathSlug ''/'' = ''root''"
proof -
  have "pathSlug (pathSlug p) = pathSlug p"
    using pathSlug_shape [of p] pathSlug_plain by blast
  moreover have "pathSlug ''/a/b.c'' = ''a_b_c''"
    by (simp add: pathSlug_def Clean_def TrimPrefix_def)
  moreover have "pathSlug ''/'' = ''root''"
    by (simp add: pathSlug_def Clean_def TrimPrefix_def)
  ultimately show ?thesis by simp
qed

end
